theory Spec2Isabelle
  imports Main "HOL-Library.Multiset"
begin

section \<open>Strings\<close>

text \<open>
  The scoring code works on JavaScript strings through a handful of library methods:
  \<^verbatim>\<open>toUpperCase\<close>, \<^verbatim>\<open>toLowerCase\<close>, \<^verbatim>\<open>includes\<close>, \<^verbatim>\<open>startsWith\<close>, \<^verbatim>\<open>trim\<close>,
  \<^verbatim>\<open>replace\<close> (first occurrence), \<^verbatim>\<open>split\<close> and \<^verbatim>\<open>join\<close>. A JavaScript string is a
  sequence of UTF-16 code units. A \<^typ>\<open>char\<close> of the model is a code unit in the range
  U+0000 to U+00FF (ASCII and Latin-1), so a \<^typ>\<open>string\<close> is a JavaScript string all of
  whose code units are below U+0100, and the methods are modelled exactly on these.
  Strings with a code unit from U+0100 on are not values of the type.

  Upper-casing leaves the range: U+00DF (sharp s) becomes the two letters \<^verbatim>\<open>SS\<close>,
  U+00B5 (micro sign) becomes U+039C and U+00FF becomes U+0178. So \<open>toUpperCase\<close> returns
  the code units of its result as numbers. The letters a to z and U+00E0 to U+00FE
  without U+00F7 (the division sign) move down by 32; every other code unit stays.
  Lower-casing stays in the range: A to Z and U+00C0 to U+00DE without U+00D7 (the
  multiplication sign) move up by 32.
\<close>

definition toUpperChar :: "char \<Rightarrow> nat list" where
  "toUpperChar c =
     (let u = (of_char c :: nat) in
      if (97 \<le> u \<and> u \<le> 122) \<or> (224 \<le> u \<and> u \<le> 254 \<and> u \<noteq> 247) then [u - 32]
      else if u = 223 then [83, 83]
      else if u = 181 then [924]
      else if u = 255 then [376]
      else [u])"

definition toLowerChar :: "char \<Rightarrow> char" where
  "toLowerChar c =
     (let u = (of_char c :: nat) in
      if (65 \<le> u \<and> u \<le> 90) \<or> (192 \<le> u \<and> u \<le> 222 \<and> u \<noteq> 215) then char_of (u + 32)
      else c)"

definition toUpperCase :: "string \<Rightarrow> nat list" where
  "toUpperCase s = concat (map toUpperChar s)"

definition toLowerCase :: "string \<Rightarrow> string" where
  "toLowerCase s = map toLowerChar s"

text \<open>
  \<^verbatim>\<open>startsWith\<close> and \<^verbatim>\<open>includes\<close> compare code units, whether these are characters or
  the numbers that \<open>toUpperCase\<close> returns.
\<close>

fun startsWith :: "'a list \<Rightarrow> 'a list \<Rightarrow> bool" where
  "startsWith s [] = True"
| "startsWith [] (p # ps) = False"
| "startsWith (c # cs) (p # ps) = (c = p \<and> startsWith cs ps)"

fun includes_str :: "'a list \<Rightarrow> 'a list \<Rightarrow> bool" where
  "includes_str [] sub = (sub = [])"
| "includes_str (c # cs) sub = (startsWith (c # cs) sub \<or> includes_str cs sub)"

text \<open>
  \<^verbatim>\<open>trim\<close> removes white space and line terminators from both ends. Below U+0100 these
  are TAB, LF, VT, FF, CR, the space and the no-break space U+00A0.
\<close>

definition isWhiteSpace :: "char \<Rightarrow> bool" where
  "isWhiteSpace c =
     (c \<in> set [CHR 0x09, CHR 0x0A, CHR 0x0B, CHR 0x0C, CHR 0x0D, CHR 0x20, CHR 0xA0])"

definition trim :: "string \<Rightarrow> string" where
  "trim s = rev (dropWhile isWhiteSpace (rev (dropWhile isWhiteSpace s)))"

text \<open>\<^verbatim>\<open>s.replace(pat, rep)\<close> with a string pattern: the first occurrence only.\<close>

fun replace :: "string \<Rightarrow> string \<Rightarrow> string \<Rightarrow> string" where
  "replace [] pat rep = (if pat = [] then rep else [])"
| "replace (c # cs) pat rep =
     (if startsWith (c # cs) pat then rep @ drop (length pat) (c # cs)
      else c # replace cs pat rep)"

text \<open>\<^verbatim>\<open>s.split(sep)\<close> for a one-character separator; the empty string gives \<^verbatim>\<open>['']\<close>.\<close>

fun split :: "string \<Rightarrow> char \<Rightarrow> string list" where
  "split [] sep = [[]]"
| "split (c # cs) sep =
     (if c = sep then [] # split cs sep
      else (case split cs sep of
              [] \<Rightarrow> [[c]]
            | l # ls \<Rightarrow> (c # l) # ls))"

fun join :: "string list \<Rightarrow> string \<Rightarrow> string" where
  "join [] sep = []"
| "join [x] sep = x"
| "join (x # y # ys) sep = x @ sep @ join (y # ys) sep"

section \<open>Data model (types/index.ts)\<close>

datatype intent = High | Medium | Low

record Offer =
  name :: string
  value_props :: "string list"
  ideal_use_cases :: "string list"

record ScoringBreakdown =
  role_score :: int
  industry_score :: int
  completeness_score :: int
  total_rule_score :: int

text \<open>
  The anonymous object type \<^verbatim>\<open>{ score; intent; reasoning }\<close> that the AI scoring service
  returns. The record \<open>ScoredLead\<close>, declared after it, has fields of the same names; the
  service's are written qualified (\<open>AIScore.score\<close>).
\<close>

record AIScore =
  score :: int
  intent :: intent
  reasoning :: string

record Lead =
  name :: string
  role :: string
  company :: string
  industry :: string
  location :: string
  linkedin_bio :: string

record ScoredLead = Lead +
  intent :: intent
  score :: int
  reasoning :: string
  rule_score :: int
  ai_score :: int

section \<open>Configuration (config/constants.ts)\<close>

definition ROLE_DECISION_MAKER :: int where "ROLE_DECISION_MAKER = 20"
definition ROLE_INFLUENCER :: int where "ROLE_INFLUENCER = 10"
definition ROLE_OTHER :: int where "ROLE_OTHER = 0"
definition INDUSTRY_EXACT_MATCH :: int where "INDUSTRY_EXACT_MATCH = 20"
definition INDUSTRY_ADJACENT :: int where "INDUSTRY_ADJACENT = 10"
definition INDUSTRY_OTHER :: int where "INDUSTRY_OTHER = 0"
definition COMPLETENESS_ALL_FIELDS :: int where "COMPLETENESS_ALL_FIELDS = 10"
definition AI_HIGH :: int where "AI_HIGH = 50"
definition AI_MEDIUM :: int where "AI_MEDIUM = 30"
definition AI_LOW :: int where "AI_LOW = 10"

definition DECISION_MAKER_ROLES :: "string list" where
  "DECISION_MAKER_ROLES =
     [''CEO'', ''CTO'', ''CFO'', ''COO'', ''CMO'', ''CPO'',
      ''VP'', ''Director'', ''Head of'', ''Chief'', ''President'',
      ''Owner'', ''Founder'', ''Co-founder'', ''Managing Director'']"

definition INFLUENCER_ROLES :: "string list" where
  "INFLUENCER_ROLES =
     [''Manager'', ''Lead'', ''Senior'', ''Principal'', ''Architect'',
      ''Consultant'', ''Specialist'', ''Advisor'', ''Strategist'']"

definition ICP_INDUSTRIES_EXACT :: "string list" where
  "ICP_INDUSTRIES_EXACT = [''B2B SaaS'', ''Software'', ''Technology'', ''SaaS'']"

definition ICP_INDUSTRIES_ADJACENT :: "string list" where
  "ICP_INDUSTRIES_ADJACENT =
     [''IT Services'', ''Consulting'', ''Digital Marketing'', ''E-commerce'', ''Fintech'']"

definition INTENT_THRESHOLDS_HIGH :: int where "INTENT_THRESHOLDS_HIGH = 70"
definition INTENT_THRESHOLDS_MEDIUM :: int where "INTENT_THRESHOLDS_MEDIUM = 40"

section \<open>Rule engine (RuleScoringService)\<close>

definition scoreRole :: "string \<Rightarrow> int" where
  "scoreRole role' =
     (if role' = [] then ROLE_OTHER
      else let roleUpper = toUpperCase role' in
        if list_ex (\<lambda>dmRole. includes_str roleUpper (toUpperCase dmRole)) DECISION_MAKER_ROLES
        then ROLE_DECISION_MAKER
        else if list_ex (\<lambda>infRole. includes_str roleUpper (toUpperCase infRole)) INFLUENCER_ROLES
        then ROLE_INFLUENCER
        else ROLE_OTHER)"

definition scoreIndustry :: "string \<Rightarrow> int" where
  "scoreIndustry industry' =
     (if industry' = [] then INDUSTRY_OTHER
      else let industryUpper = toUpperCase industry' in
        if list_ex (\<lambda>icpIndustry. includes_str industryUpper (toUpperCase icpIndustry))
             ICP_INDUSTRIES_EXACT
        then INDUSTRY_EXACT_MATCH
        else if list_ex (\<lambda>adjIndustry. includes_str industryUpper (toUpperCase adjIndustry))
             ICP_INDUSTRIES_ADJACENT
        then INDUSTRY_ADJACENT
        else INDUSTRY_OTHER)"

text \<open>
  \<^verbatim>\<open>fields.every(field => field && field.trim().length > 0)\<close>: a string is truthy
  when it is not empty.
\<close>

definition scoreCompleteness :: "'a Lead_scheme \<Rightarrow> int" where
  "scoreCompleteness lead =
     (let fields = [name lead, role lead, company lead, industry lead, location lead,
                    linkedin_bio lead];
          allFieldsPresent = list_all (\<lambda>field. field \<noteq> [] \<and> length (trim field) > 0) fields
      in if allFieldsPresent then COMPLETENESS_ALL_FIELDS else 0)"

text \<open>The result object \<^verbatim>\<open>{ score, breakdown }\<close> is the pair of its two fields.\<close>

definition calculateRuleScore :: "'a Lead_scheme \<Rightarrow> int \<times> ScoringBreakdown" where
  "calculateRuleScore lead =
     (let breakdown = \<lparr>role_score = 0, industry_score = 0, completeness_score = 0,
                       total_rule_score = 0\<rparr>;
          breakdown = breakdown\<lparr>role_score := scoreRole (role lead)\<rparr>;
          breakdown = breakdown\<lparr>industry_score := scoreIndustry (industry lead)\<rparr>;
          breakdown = breakdown\<lparr>completeness_score := scoreCompleteness lead\<rparr>;
          breakdown = breakdown\<lparr>total_rule_score :=
            role_score breakdown + industry_score breakdown + completeness_score breakdown\<rparr>
      in (total_rule_score breakdown, breakdown))"

section \<open>Intent classifier (AIScoringService)\<close>

text \<open>
  The environment of the service: the credential \<^verbatim>\<open>process.env.OPENAI_API_KEY\<close>
  (\<open>None\<close> when the variable is not set) and the external completion call
  \<^verbatim>\<open>openai.chat.completions.create\<close>. The call is an oracle over a state \<open>'w\<close> of the
  outside world: given the system and the user message it either raises (\<open>Inl\<close>) or
  returns \<^verbatim>\<open>completion.choices[0]?.message?.content\<close>, which may be missing (\<open>None\<close>),
  and it leaves the world in a new state. The fixed request parameters (model,
  temperature, token limit) are not arguments of the oracle.
\<close>

datatype error = Error string

record 'w Env =
  OPENAI_API_KEY :: "string option"
  create :: "'w \<Rightarrow> string \<Rightarrow> string \<Rightarrow> (error + string option) \<times> 'w"

definition SYSTEM_PROMPT :: string where
  "SYSTEM_PROMPT =
     ''You are an expert B2B sales qualification specialist. '' @
     ''Analyze prospects and classify their buying intent accurately.''"

definition buildPrompt :: "Lead \<Rightarrow> Offer \<Rightarrow> string" where
  "buildPrompt lead offer =
     ''\<newline>Analyze this prospect for the following product/offer:\<newline>\<newline>'' @
     ''PRODUCT/OFFER:\<newline>'' @
     ''- Name: '' @ Offer.name offer @ ''\<newline>'' @
     ''- Value Props: '' @ join (value_props offer) '', '' @ ''\<newline>'' @
     ''- Ideal Use Cases: '' @ join (ideal_use_cases offer) '', '' @ ''\<newline>\<newline>'' @
     ''PROSPECT:\<newline>'' @
     ''- Name: '' @ name lead @ ''\<newline>'' @
     ''- Role: '' @ role lead @ ''\<newline>'' @
     ''- Company: '' @ company lead @ ''\<newline>'' @
     ''- Industry: '' @ industry lead @ ''\<newline>'' @
     ''- Location: '' @ location lead @ ''\<newline>'' @
     ''- LinkedIn Bio: '' @ linkedin_bio lead @ ''\<newline>\<newline>'' @
     ''Based on the prospect'' @ [CHR 0x27] @ ''s role, industry, and LinkedIn bio, '' @
     ''classify their buying intent as High, Medium, or Low.\<newline>\<newline>'' @
     ''Consider:\<newline>'' @
     ''1. Role alignment with decision-making authority\<newline>'' @
     ''2. Industry fit with ideal use cases\<newline>'' @
     ''3. LinkedIn bio indicators of relevant pain points or initiatives\<newline>'' @
     ''4. Company and location factors\<newline>\<newline>'' @
     ''Respond in this exact format:\<newline>'' @
     ''INTENT: [High/Medium/Low]\<newline>'' @
     ''REASONING: [1-2 sentences explaining your classification]\<newline>''"

definition scoreMap :: "intent \<Rightarrow> int" where
  "scoreMap i = (case i of High \<Rightarrow> AI_HIGH | Medium \<Rightarrow> AI_MEDIUM | Low \<Rightarrow> AI_LOW)"

text \<open>
  The body of the loop over the lines of the response; the state is the pair of the
  variables \<^verbatim>\<open>intent\<close> and \<^verbatim>\<open>reasoning\<close>.
\<close>

definition parseLine :: "intent \<times> string \<Rightarrow> string \<Rightarrow> intent \<times> string" where
  "parseLine st line =
     (case st of (intent', reasoning') \<Rightarrow>
        if startsWith line ''INTENT:'' then
          let intentStr = trim (replace line ''INTENT:'' []) in
          if includes_str intentStr ''High'' then (High, reasoning')
          else if includes_str intentStr ''Low'' then (Low, reasoning')
          else (Medium, reasoning')
        else if startsWith line ''REASONING:'' then
          (intent', trim (replace line ''REASONING:'' []))
        else (intent', reasoning'))"

definition parseAIResponse :: "string \<Rightarrow> AIScore" where
  "parseAIResponse response =
     (let lines = split response (CHR 0x0A) in
      case foldl parseLine (Medium, ''AI analysis completed'') lines of
        (intent', reasoning') \<Rightarrow>
          \<lparr>AIScore.score = scoreMap intent', intent = intent', reasoning = reasoning'\<rparr>)"

definition highValueKeywords :: "string list" where
  "highValueKeywords =
     [''scale'', ''growth'', ''automation'', ''AI'', ''efficiency'', ''productivity'']"

definition hasHighValueKeywords :: "Lead \<Rightarrow> bool" where
  "hasHighValueKeywords lead =
     (let bioLower = toLowerCase (linkedin_bio lead) in
      list_ex (\<lambda>keyword. includes_str bioLower (toLowerCase keyword)) highValueKeywords)"

definition fallbackScoring :: "Lead \<Rightarrow> Offer \<Rightarrow> AIScore" where
  "fallbackScoring lead offer =
     (let (score', intent') =
            (if hasHighValueKeywords lead \<and> includes_str (toLowerCase (industry lead)) ''saas''
             then (AI_HIGH, High)
             else if \<not> hasHighValueKeywords lead \<and>
                     \<not> includes_str (toLowerCase (industry lead)) ''tech''
             then (AI_LOW, Low)
             else (AI_MEDIUM, Medium))
      in \<lparr>AIScore.score = score', intent = intent',
          reasoning = ''Based on profile analysis: '' @ role lead @ '' in '' @ industry lead @
                      '' industry.''\<rparr>)"

text \<open>
  \<^verbatim>\<open>scoreWithAI\<close> is a \<^verbatim>\<open>try\<close> block and its \<^verbatim>\<open>catch\<close>. \<open>scoreWithAI_try\<close> is the body
  of the \<^verbatim>\<open>try\<close>: an exception of the completion call leaves it as \<open>Inl\<close>.
  \<^verbatim>\<open>!key\<close> holds for a key that is not set or is the empty string.
\<close>

definition scoreWithAI_try :: "'w Env \<Rightarrow> 'w \<Rightarrow> Lead \<Rightarrow> Offer \<Rightarrow> (error + AIScore) \<times> 'w" where
  "scoreWithAI_try env w lead offer =
     (if (case OPENAI_API_KEY env of
            None \<Rightarrow> True
          | Some key \<Rightarrow> key = [] \<or> key = ''your_openai_api_key_here'')
      then (Inr (fallbackScoring lead offer), w)
      else
        let prompt = buildPrompt lead offer in
        case create env w SYSTEM_PROMPT prompt of
          (Inl e, w') \<Rightarrow> (Inl e, w')
        | (Inr content, w') \<Rightarrow>
            let response = (case content of None \<Rightarrow> [] | Some c \<Rightarrow> c);
                parsed = parseAIResponse response
            in (Inr parsed, w'))"

definition scoreWithAI :: "'w Env \<Rightarrow> 'w \<Rightarrow> Lead \<Rightarrow> Offer \<Rightarrow> (error + AIScore) \<times> 'w" where
  "scoreWithAI env w lead offer =
     (case scoreWithAI_try env w lead offer of
        (Inr result, w') \<Rightarrow> (Inr result, w')
      | (Inl e, w') \<Rightarrow>
          (Inr \<lparr>AIScore.score = AI_MEDIUM, intent = Medium,
                reasoning = ''Unable to determine intent via AI analysis''\<rparr>, w'))"

section \<open>Orchestrator (LeadScoringService)\<close>

text \<open>
  The service holds its classifier in the field \<^verbatim>\<open>aiScoringService\<close> and awaits
  \<^verbatim>\<open>aiScoringService.scoreWithAI(lead, offer)\<close>, a call that may reject. The
  orchestrator is modelled for any such classifier; the service the constructor builds is
  the instance \<open>scoreWithAI env\<close>.
\<close>

type_synonym 'w AIScoringService = "'w \<Rightarrow> Lead \<Rightarrow> Offer \<Rightarrow> (error + AIScore) \<times> 'w"

definition determineIntent :: "int \<Rightarrow> intent" where
  "determineIntent score' =
     (if score' \<ge> INTENT_THRESHOLDS_HIGH then High
      else if score' \<ge> INTENT_THRESHOLDS_MEDIUM then Medium
      else Low)"

text \<open>
  The object spread \<^verbatim>\<open>{ ...lead, score, intent, reasoning, rule_score, ai_score }\<close>
  extends the record of the lead by the five scoring fields.
\<close>

definition scoreLead ::
  "'w AIScoringService \<Rightarrow> 'w \<Rightarrow> Lead \<Rightarrow> Offer \<Rightarrow> (error + ScoredLead) \<times> 'w" where
  "scoreLead aiScoringService w lead offer =
     (let ruleScore = fst (calculateRuleScore lead) in
      case aiScoringService w lead offer of
        (Inl e, w') \<Rightarrow> (Inl e, w')
      | (Inr ai, w') \<Rightarrow>
          let aiScore = AIScore.score ai;
              reasoning' = AIScore.reasoning ai;
              totalScore = ruleScore + aiScore;
              finalIntent = determineIntent totalScore
          in (Inr (Lead.extend lead
                     (ScoredLead.fields finalIntent totalScore reasoning' ruleScore aiScore)),
              w'))"

text \<open>The record pushed in the \<^verbatim>\<open>catch\<close> block of \<^verbatim>\<open>scoreLeads\<close>.\<close>

definition errorPlaceholder :: "Lead \<Rightarrow> ScoredLead" where
  "errorPlaceholder lead =
     Lead.extend lead (ScoredLead.fields Medium 40 ''Error during scoring process'' 20 20)"

text \<open>
  \<^verbatim>\<open>Array.prototype.sort\<close> with a comparator: ECMAScript (2019 and later) requires a
  stable sort, so for a consistent comparator the result is the one an insertion sort
  gives that puts an element before the first later one it does not compare greater
  than.
\<close>

fun insert_by :: "('a \<Rightarrow> 'a \<Rightarrow> int) \<Rightarrow> 'a \<Rightarrow> 'a list \<Rightarrow> 'a list" where
  "insert_by cmp x [] = [x]"
| "insert_by cmp x (y # ys) = (if cmp x y \<le> 0 then x # y # ys else y # insert_by cmp x ys)"

definition sort_by :: "('a \<Rightarrow> 'a \<Rightarrow> int) \<Rightarrow> 'a list \<Rightarrow> 'a list" where
  "sort_by cmp xs = foldr (insert_by cmp) xs []"

text \<open>
  One iteration of the \<^verbatim>\<open>for\<close> loop of \<^verbatim>\<open>scoreLeads\<close>, on the array \<^verbatim>\<open>scoredLeads\<close>
  and the state of the world; \<open>scoreLeads_loop\<close> is the whole loop, \<open>scoreLeads\<close> the
  loop and the sort after it.
\<close>

definition scoreLeads_step ::
  "'w AIScoringService \<Rightarrow> Offer \<Rightarrow> ScoredLead list \<times> 'w \<Rightarrow> Lead \<Rightarrow> ScoredLead list \<times> 'w" where
  "scoreLeads_step aiScoringService offer st lead =
     (case st of (scoredLeads, w) \<Rightarrow>
        case scoreLead aiScoringService w lead offer of
          (Inr scoredLead, w') \<Rightarrow> (scoredLeads @ [scoredLead], w')
        | (Inl e, w') \<Rightarrow> (scoredLeads @ [errorPlaceholder lead], w'))"

definition scoreLeads_loop ::
  "'w AIScoringService \<Rightarrow> 'w \<Rightarrow> Lead list \<Rightarrow> Offer \<Rightarrow> ScoredLead list \<times> 'w" where
  "scoreLeads_loop aiScoringService w leads offer =
     foldl (scoreLeads_step aiScoringService offer) ([], w) leads"

definition scoreLeads ::
  "'w AIScoringService \<Rightarrow> 'w \<Rightarrow> Lead list \<Rightarrow> Offer \<Rightarrow> ScoredLead list \<times> 'w" where
  "scoreLeads aiScoringService w leads offer =
     (case scoreLeads_loop aiScoringService w leads offer of
        (scoredLeads, w') \<Rightarrow> (sort_by (\<lambda>a b. score b - score a) scoredLeads, w'))"

text \<open>
  What one iteration appends to \<^verbatim>\<open>scoredLeads\<close>: the scored lead, or the placeholder
  when \<^verbatim>\<open>scoreLead\<close> has thrown.
\<close>

definition emitted :: "'w AIScoringService \<Rightarrow> 'w \<Rightarrow> Lead \<Rightarrow> Offer \<Rightarrow> ScoredLead" where
  "emitted aiScoringService w lead offer =
     (case fst (scoreLead aiScoringService w lead offer) of
        Inr scoredLead \<Rightarrow> scoredLead
      | Inl e \<Rightarrow> errorPlaceholder lead)"

section \<open>Example inputs\<close>

text \<open>
  Three leads and two offers, three environments (no credential; a credential and a
  completion call that always raises; a credential and a completion call that always
  answers Low), and a classifier that rejects its second call. The world of
  \<open>secondCallRejects\<close> is the number of calls made so far.
\<close>

definition amy :: Lead where
  "amy = \<lparr>name = ''Amy Chen'', role = ''VP of Sales'', company = ''Acme'',
          industry = ''B2B SaaS'', location = ''NYC'',
          linkedin_bio = ''Scaling outbound with automation''\<rparr>"

definition bob :: Lead where
  "bob = \<lparr>name = ''Bob Ray'', role = ''Account Manager'', company = ''Initech'',
          industry = ''Fintech'', location = ''Austin'',
          linkedin_bio = ''Helping teams close deals''\<rparr>"

definition carol :: Lead where
  "carol = \<lparr>name = ''Carol Diaz'', role = [], company = ''Globex'',
            industry = [], location = ''Lima'',
            linkedin_bio = ''Gardening and hiking''\<rparr>"

definition exampleOffer :: Offer where
  "exampleOffer = \<lparr>Offer.name = ''AI Outreach Automation'',
                   value_props = [''24/7 outreach'', ''6x more meetings''],
                   ideal_use_cases = [''B2B SaaS mid-market'']\<rparr>"

definition otherOffer :: Offer where
  "otherOffer = \<lparr>Offer.name = ''Warehouse Robots'',
                 value_props = [''fewer picking errors''],
                 ideal_use_cases = [''logistics'', ''retail'']\<rparr>"

definition noKeyEnv :: "unit Env" where
  "noKeyEnv = \<lparr>OPENAI_API_KEY = None,
               create = (\<lambda>w sys usr. (Inl (Error ''not reachable''), w))\<rparr>"

definition failingEnv :: "unit Env" where
  "failingEnv = \<lparr>OPENAI_API_KEY = Some ''sk-test'',
                 create = (\<lambda>w sys usr. (Inl (Error ''connect ETIMEDOUT''), w))\<rparr>"

definition replyingEnv :: "unit Env" where
  "replyingEnv = \<lparr>OPENAI_API_KEY = Some ''sk-test'',
                  create = (\<lambda>w sys usr.
                    (Inr (Some ''INTENT: Low\<newline>REASONING: Not a buyer.''), w))\<rparr>"

definition secondCallRejects :: "nat AIScoringService" where
  "secondCallRejects w lead offer =
     (if w = 1 then (Inl (Error ''rejected''), w + 1)
      else (Inr (fallbackScoring lead offer), w + 1))"


section \<open>Rule engine: values of the sub-scores\<close>

lemmas SCORING_WEIGHTS =
  ROLE_DECISION_MAKER_def ROLE_INFLUENCER_def ROLE_OTHER_def
  INDUSTRY_EXACT_MATCH_def INDUSTRY_ADJACENT_def INDUSTRY_OTHER_def
  COMPLETENESS_ALL_FIELDS_def AI_HIGH_def AI_MEDIUM_def AI_LOW_def

lemma trim_Nil: "trim [] = []"
  by (simp add: trim_def)

lemma scoreRole_values: "scoreRole r = 0 \<or> scoreRole r = 10 \<or> scoreRole r = 20"
  by (simp add: scoreRole_def SCORING_WEIGHTS Let_def)

lemma scoreIndustry_values:
  "scoreIndustry i = 0 \<or> scoreIndustry i = 10 \<or> scoreIndustry i = 20"
  by (simp add: scoreIndustry_def SCORING_WEIGHTS Let_def)

lemma scoreCompleteness_values: "scoreCompleteness lead = 0 \<or> scoreCompleteness lead = 10"
  by (simp add: scoreCompleteness_def SCORING_WEIGHTS Let_def)

lemma calculateRuleScore_score:
  "fst (calculateRuleScore lead) =
     scoreRole (role lead) + scoreIndustry (industry lead) + scoreCompleteness lead"
  by (simp add: calculateRuleScore_def Let_def)

lemma calculateRuleScore_range:
  "0 \<le> fst (calculateRuleScore lead) \<and> fst (calculateRuleScore lead) \<le> 50"
  using scoreRole_values[of "role lead"] scoreIndustry_values[of "industry lead"]
    scoreCompleteness_values[of lead]
  unfolding calculateRuleScore_score by linarith

text \<open>A string trims to the empty string exactly when it has white space only.\<close>

lemma trim_eq_Nil_iff: "trim f = [] \<longleftrightarrow> (\<forall>c \<in> set f. isWhiteSpace c)"
proof
  assume "trim f = []"
  then have "dropWhile isWhiteSpace (rev (dropWhile isWhiteSpace f)) = []"
    by (simp add: trim_def)
  then have all: "\<forall>c \<in> set (dropWhile isWhiteSpace f). isWhiteSpace c"
    by (simp add: dropWhile_eq_Nil_conv)
  have "dropWhile isWhiteSpace f = []"
  proof (rule ccontr)
    assume ne: "dropWhile isWhiteSpace f \<noteq> []"
    then have "\<not> isWhiteSpace (hd (dropWhile isWhiteSpace f))"
      by (rule hd_dropWhile)
    moreover have "hd (dropWhile isWhiteSpace f) \<in> set (dropWhile isWhiteSpace f)"
      using ne by simp
    ultimately show False using all by blast
  qed
  then show "\<forall>c \<in> set f. isWhiteSpace c"
    by (simp add: dropWhile_eq_Nil_conv)
next
  assume "\<forall>c \<in> set f. isWhiteSpace c"
  then have d: "dropWhile isWhiteSpace f = []"
    by (simp add: dropWhile_eq_Nil_conv)
  show "trim f = []"
    unfolding trim_def d by simp
qed

text \<open>
  C8. The completeness score of a lead is 10 if and only if each of its six fields
  (name, role, company, industry, location, linkedin_bio) is non-empty after trimming
  white space, and it is 0 otherwise: there is no partial credit. A field is non-empty
  after trimming exactly when it has a character that is none of TAB, LF, VT, FF, CR,
  space and no-break space.
\<close>

theorem scoreCompleteness_binary:
  "(scoreCompleteness lead = 10 \<longleftrightarrow>
      trim (name lead) \<noteq> [] \<and> trim (role lead) \<noteq> [] \<and> trim (company lead) \<noteq> [] \<and>
      trim (industry lead) \<noteq> [] \<and> trim (location lead) \<noteq> [] \<and>
      trim (linkedin_bio lead) \<noteq> []) \<and>
   (scoreCompleteness lead \<noteq> 10 \<longleftrightarrow> scoreCompleteness lead = 0) \<and>
   (scoreCompleteness lead = 10 \<longleftrightarrow>
      (\<forall>f \<in> set [name lead, role lead, company lead, industry lead, location lead,
                  linkedin_bio lead].
         \<exists>c \<in> set f.
           c \<notin> set [CHR 0x09, CHR 0x0A, CHR 0x0B, CHR 0x0C, CHR 0x0D, CHR 0x20, CHR 0xA0]))"
proof -
  have field: "(f \<noteq> [] \<and> trim f \<noteq> []) = (trim f \<noteq> [])" for f
    using trim_Nil by auto
  have 1: "scoreCompleteness lead = 10 \<longleftrightarrow>
      trim (name lead) \<noteq> [] \<and> trim (role lead) \<noteq> [] \<and> trim (company lead) \<noteq> [] \<and>
      trim (industry lead) \<noteq> [] \<and> trim (location lead) \<noteq> [] \<and>
      trim (linkedin_bio lead) \<noteq> []"
    by (simp add: scoreCompleteness_def COMPLETENESS_ALL_FIELDS_def field)
  have 2: "scoreCompleteness lead \<noteq> 10 \<longleftrightarrow> scoreCompleteness lead = 0"
    by (simp add: scoreCompleteness_def COMPLETENESS_ALL_FIELDS_def)
  have visible: "trim f \<noteq> [] \<longleftrightarrow>
      (\<exists>c \<in> set f.
         c \<notin> set [CHR 0x09, CHR 0x0A, CHR 0x0B, CHR 0x0C, CHR 0x0D, CHR 0x20, CHR 0xA0])" for f
    unfolding trim_eq_Nil_iff isWhiteSpace_def by blast
  have 3: "scoreCompleteness lead = 10 \<longleftrightarrow>
      (\<forall>f \<in> set [name lead, role lead, company lead, industry lead, location lead,
                  linkedin_bio lead].
         \<exists>c \<in> set f.
           c \<notin> set [CHR 0x09, CHR 0x0A, CHR 0x0B, CHR 0x0C, CHR 0x0D, CHR 0x20, CHR 0xA0])"
    unfolding 1 visible by simp
  from 1 2 3 show ?thesis by blast
qed

text \<open>
  Amy's six fields are filled: 10. A location of three spaces, a location of a no-break
  space and a TAB, and Carol's empty role each give 0.
\<close>

theorem scoreCompleteness_binary_witness:
  "scoreCompleteness amy = 10 \<and>
   scoreCompleteness (amy\<lparr>location := ''   ''\<rparr>) = 0 \<and>
   scoreCompleteness (amy\<lparr>location := [CHR 0xA0, CHR 0x09]\<rparr>) = 0 \<and>
   scoreCompleteness carol = 0"
proof -
  have amy: "\<forall>f \<in> set [name amy, role amy, company amy, industry amy, location amy,
                  linkedin_bio amy].
         \<exists>c \<in> set f.
           c \<notin> set [CHR 0x09, CHR 0x0A, CHR 0x0B, CHR 0x0C, CHR 0x0D, CHR 0x20, CHR 0xA0]"
    by code_simp
  have spaces: "\<not> (\<forall>f \<in> set [name (amy\<lparr>location := ''   ''\<rparr>),
                  role (amy\<lparr>location := ''   ''\<rparr>), company (amy\<lparr>location := ''   ''\<rparr>),
                  industry (amy\<lparr>location := ''   ''\<rparr>),
                  location (amy\<lparr>location := ''   ''\<rparr>),
                  linkedin_bio (amy\<lparr>location := ''   ''\<rparr>)].
         \<exists>c \<in> set f.
           c \<notin> set [CHR 0x09, CHR 0x0A, CHR 0x0B, CHR 0x0C, CHR 0x0D, CHR 0x20, CHR 0xA0])"
    by code_simp
  have nbsp: "\<not> (\<forall>f \<in> set [name (amy\<lparr>location := [CHR 0xA0, CHR 0x09]\<rparr>),
                  role (amy\<lparr>location := [CHR 0xA0, CHR 0x09]\<rparr>),
                  company (amy\<lparr>location := [CHR 0xA0, CHR 0x09]\<rparr>),
                  industry (amy\<lparr>location := [CHR 0xA0, CHR 0x09]\<rparr>),
                  location (amy\<lparr>location := [CHR 0xA0, CHR 0x09]\<rparr>),
                  linkedin_bio (amy\<lparr>location := [CHR 0xA0, CHR 0x09]\<rparr>)].
         \<exists>c \<in> set f.
           c \<notin> set [CHR 0x09, CHR 0x0A, CHR 0x0B, CHR 0x0C, CHR 0x0D, CHR 0x20, CHR 0xA0])"
    by code_simp
  have carol: "\<not> (\<forall>f \<in> set [name carol, role carol, company carol, industry carol,
                  location carol, linkedin_bio carol].
         \<exists>c \<in> set f.
           c \<notin> set [CHR 0x09, CHR 0x0A, CHR 0x0B, CHR 0x0C, CHR 0x0D, CHR 0x20, CHR 0xA0])"
    by code_simp
  have "scoreCompleteness amy = 10"
    using scoreCompleteness_binary[of amy, THEN conjunct2, THEN conjunct2] amy by (rule iffD2)
  moreover have "scoreCompleteness (amy\<lparr>location := ''   ''\<rparr>) = 0"
    using scoreCompleteness_binary[of "amy\<lparr>location := ''   ''\<rparr>"] spaces by argo
  moreover have "scoreCompleteness (amy\<lparr>location := [CHR 0xA0, CHR 0x09]\<rparr>) = 0"
    using scoreCompleteness_binary[of "amy\<lparr>location := [CHR 0xA0, CHR 0x09]\<rparr>"] nbsp by argo
  moreover have "scoreCompleteness carol = 0"
    using scoreCompleteness_binary[of carol] carol by argo
  ultimately show ?thesis by blast
qed

section \<open>Intent classifier\<close>

lemma scoreMap_values: "scoreMap i = 10 \<or> scoreMap i = 30 \<or> scoreMap i = 50"
  by (cases i) (simp_all add: scoreMap_def SCORING_WEIGHTS)

lemma parseAIResponse_score:
  "AIScore.score (parseAIResponse response) =
     scoreMap (AIScore.intent (parseAIResponse response))"
  by (simp add: parseAIResponse_def split: prod.splits)

lemma fallbackScoring_score:
  "AIScore.score (fallbackScoring lead offer) = 10 \<or>
   AIScore.score (fallbackScoring lead offer) = 30 \<or>
   AIScore.score (fallbackScoring lead offer) = 50"
  by (simp add: fallbackScoring_def SCORING_WEIGHTS)

text \<open>The three ways out of \<open>scoreWithAI\<close>: the heuristic, the default, the parse.\<close>

lemma scoreWithAI_cases:
  "scoreWithAI env w lead offer =
     (if OPENAI_API_KEY env = None \<or> OPENAI_API_KEY env = Some [] \<or>
         OPENAI_API_KEY env = Some ''your_openai_api_key_here''
      then (Inr (fallbackScoring lead offer), w)
      else (case create env w SYSTEM_PROMPT (buildPrompt lead offer) of
              (Inl e, w') \<Rightarrow>
                (Inr \<lparr>AIScore.score = 30, intent = Medium,
                      reasoning = ''Unable to determine intent via AI analysis''\<rparr>, w')
            | (Inr None, w') \<Rightarrow> (Inr (parseAIResponse []), w')
            | (Inr (Some c), w') \<Rightarrow> (Inr (parseAIResponse c), w')))"
  by (auto simp: scoreWithAI_def scoreWithAI_try_def AI_MEDIUM_def Let_def
           split: option.splits prod.splits sum.splits)

lemma scoreWithAI_returns:
  "\<exists>r w'. scoreWithAI env w lead offer = (Inr r, w') \<and>
     (AIScore.score r = 10 \<or> AIScore.score r = 30 \<or> AIScore.score r = 50)"
  using fallbackScoring_score[of lead offer] scoreMap_values
  by (auto simp: scoreWithAI_cases parseAIResponse_score
           split: option.splits prod.splits sum.splits)

lemma hasHighValueKeywords_iff:
  "hasHighValueKeywords lead \<longleftrightarrow>
     (\<exists>keyword \<in> set [''scale'', ''growth'', ''automation'', ''AI'', ''efficiency'',
                       ''productivity''].
        includes_str (toLowerCase (linkedin_bio lead)) (toLowerCase keyword))"
  unfolding hasHighValueKeywords_def highValueKeywords_def Let_def list_ex_iff ..

text \<open>
  C4. The fallback classifier returns High with score 50 when the bio contains, in lower
  case, a keyword of the set and the lower-cased industry contains "saas"; Low with
  score 10 when the bio contains no keyword and the industry does not contain "tech";
  Medium with score 30 in every other case.
\<close>

theorem fallbackScoring_rules:
  "(((\<exists>keyword \<in> set [''scale'', ''growth'', ''automation'', ''AI'', ''efficiency'',
                       ''productivity''].
        includes_str (toLowerCase (linkedin_bio lead)) (toLowerCase keyword)) \<and>
     includes_str (toLowerCase (industry lead)) ''saas'') \<longrightarrow>
      AIScore.intent (fallbackScoring lead offer) = High \<and>
      AIScore.score (fallbackScoring lead offer) = 50) \<and>
   ((\<not> (\<exists>keyword \<in> set [''scale'', ''growth'', ''automation'', ''AI'', ''efficiency'',
                         ''productivity''].
        includes_str (toLowerCase (linkedin_bio lead)) (toLowerCase keyword)) \<and>
     \<not> includes_str (toLowerCase (industry lead)) ''tech'') \<longrightarrow>
      AIScore.intent (fallbackScoring lead offer) = Low \<and>
      AIScore.score (fallbackScoring lead offer) = 10) \<and>
   (\<not> ((\<exists>keyword \<in> set [''scale'', ''growth'', ''automation'', ''AI'', ''efficiency'',
                         ''productivity''].
        includes_str (toLowerCase (linkedin_bio lead)) (toLowerCase keyword)) \<and>
       includes_str (toLowerCase (industry lead)) ''saas'') \<and>
    \<not> (\<not> (\<exists>keyword \<in> set [''scale'', ''growth'', ''automation'', ''AI'', ''efficiency'',
                            ''productivity''].
        includes_str (toLowerCase (linkedin_bio lead)) (toLowerCase keyword)) \<and>
       \<not> includes_str (toLowerCase (industry lead)) ''tech'') \<longrightarrow>
      AIScore.intent (fallbackScoring lead offer) = Medium \<and>
      AIScore.score (fallbackScoring lead offer) = 30)"
  unfolding hasHighValueKeywords_iff[symmetric]
  by (simp add: fallbackScoring_def SCORING_WEIGHTS)

text \<open>
  Amy's bio has "automation" and her industry "saas": High. Carol's bio has no keyword
  and her industry is empty: Low. Bob's bio has no keyword but "Fintech" contains
  "tech": Medium.
\<close>

theorem fallbackScoring_rules_witness:
  "(AIScore.intent (fallbackScoring amy exampleOffer) = High \<and>
    AIScore.score (fallbackScoring amy exampleOffer) = 50) \<and>
   (AIScore.intent (fallbackScoring carol exampleOffer) = Low \<and>
    AIScore.score (fallbackScoring carol exampleOffer) = 10) \<and>
   (AIScore.intent (fallbackScoring bob exampleOffer) = Medium \<and>
    AIScore.score (fallbackScoring bob exampleOffer) = 30)"
proof -
  have amy: "(\<exists>keyword \<in> set [''scale'', ''growth'', ''automation'', ''AI'', ''efficiency'',
                               ''productivity''].
        includes_str (toLowerCase (linkedin_bio amy)) (toLowerCase keyword)) \<and>
     includes_str (toLowerCase (industry amy)) ''saas''"
    by code_simp
  have carol: "\<not> (\<exists>keyword \<in> set [''scale'', ''growth'', ''automation'', ''AI'',
                                  ''efficiency'', ''productivity''].
        includes_str (toLowerCase (linkedin_bio carol)) (toLowerCase keyword)) \<and>
     \<not> includes_str (toLowerCase (industry carol)) ''tech''"
    by code_simp
  have bob: "\<not> ((\<exists>keyword \<in> set [''scale'', ''growth'', ''automation'', ''AI'',
                                 ''efficiency'', ''productivity''].
        includes_str (toLowerCase (linkedin_bio bob)) (toLowerCase keyword)) \<and>
       includes_str (toLowerCase (industry bob)) ''saas'') \<and>
    \<not> (\<not> (\<exists>keyword \<in> set [''scale'', ''growth'', ''automation'', ''AI'', ''efficiency'',
                            ''productivity''].
        includes_str (toLowerCase (linkedin_bio bob)) (toLowerCase keyword)) \<and>
       \<not> includes_str (toLowerCase (industry bob)) ''tech'')"
    by code_simp
  show ?thesis
    using fallbackScoring_rules[of amy exampleOffer, THEN conjunct1, rule_format, OF amy]
      fallbackScoring_rules[of carol exampleOffer, THEN conjunct2, THEN conjunct1,
        rule_format, OF carol]
      fallbackScoring_rules[of bob exampleOffer, THEN conjunct2, THEN conjunct2,
        rule_format, OF bob]
    by simp
qed

text \<open>
  C9. The fallback classifier does not look at the offer: for one lead, any two offers
  give the same score, intent and reasoning. Of the lead it reads the linkedin_bio, the
  industry and the role only: two leads that agree on these get the same result. So
  without a credential the classifier \<open>scoreWithAI\<close> gives one result for any two offers.
\<close>

theorem fallbackScoring_ignores_offer:
  "fallbackScoring lead offer = fallbackScoring lead offer' \<and>
   (linkedin_bio lead = linkedin_bio lead' \<and> industry lead = industry lead' \<and>
    role lead = role lead' \<longrightarrow>
      fallbackScoring lead offer = fallbackScoring lead' offer') \<and>
   (OPENAI_API_KEY env = None \<longrightarrow>
      scoreWithAI env w lead offer = scoreWithAI env w lead offer')"
  by (simp add: fallbackScoring_def hasHighValueKeywords_def scoreWithAI_cases)

theorem fallbackScoring_ignores_offer_witness:
  "fallbackScoring amy exampleOffer =
     fallbackScoring (amy\<lparr>name := ''Dan Price'', company := ''Hooli''\<rparr>) otherOffer \<and>
   scoreWithAI noKeyEnv () amy exampleOffer = scoreWithAI noKeyEnv () amy otherOffer \<and>
   exampleOffer \<noteq> otherOffer"
proof -
  have fields:
    "linkedin_bio amy = linkedin_bio (amy\<lparr>name := ''Dan Price'', company := ''Hooli''\<rparr>) \<and>
     industry amy = industry (amy\<lparr>name := ''Dan Price'', company := ''Hooli''\<rparr>) \<and>
     role amy = role (amy\<lparr>name := ''Dan Price'', company := ''Hooli''\<rparr>)"
    by simp
  have key: "OPENAI_API_KEY noKeyEnv = None"
    by (simp add: noKeyEnv_def)
  have differ: "exampleOffer \<noteq> otherOffer"
    by (simp add: exampleOffer_def otherOffer_def)
  note T = fallbackScoring_ignores_offer[where offer = exampleOffer and offer' = otherOffer
      and lead = amy and lead' = "amy\<lparr>name := ''Dan Price'', company := ''Hooli''\<rparr>"
      and env = noKeyEnv and w = "()"]
  show ?thesis
    using T[THEN conjunct2, THEN conjunct1, rule_format, OF fields]
      T[THEN conjunct2, THEN conjunct2, rule_format, OF key] differ
    by simp
qed

text \<open>
  C6. \<open>scoreWithAI\<close> returns a result for every lead, offer, environment and behaviour of
  the completion call; it never leaves with an exception. Without a configured credential
  (not set, empty, or the sample text of the configuration template) the result is the
  local heuristic's and no call is made. With a credential, a completion call that raises
  gives the default: score 30, Medium, "Unable to determine intent via AI analysis".
\<close>

theorem scoreWithAI_never_throws:
  "(\<exists>result w'. scoreWithAI env w lead offer = (Inr result, w')) \<and>
   (OPENAI_API_KEY env = None \<or> OPENAI_API_KEY env = Some [] \<or>
    OPENAI_API_KEY env = Some ''your_openai_api_key_here'' \<longrightarrow>
      scoreWithAI env w lead offer = (Inr (fallbackScoring lead offer), w)) \<and>
   (\<forall>key e w'.
      OPENAI_API_KEY env = Some key \<and> key \<noteq> [] \<and> key \<noteq> ''your_openai_api_key_here'' \<and>
      create env w SYSTEM_PROMPT (buildPrompt lead offer) = (Inl e, w') \<longrightarrow>
      scoreWithAI env w lead offer =
        (Inr \<lparr>AIScore.score = 30, intent = Medium,
              reasoning = ''Unable to determine intent via AI analysis''\<rparr>, w'))"
proof -
  have "\<exists>result w'. scoreWithAI env w lead offer = (Inr result, w')"
    using scoreWithAI_returns[of env w lead offer] by auto
  then show ?thesis
    by (auto simp: scoreWithAI_cases)
qed

theorem scoreWithAI_never_throws_witness:
  "scoreWithAI noKeyEnv () amy exampleOffer = (Inr (fallbackScoring amy exampleOffer), ()) \<and>
   scoreWithAI failingEnv () amy exampleOffer =
     (Inr \<lparr>AIScore.score = 30, intent = Medium,
           reasoning = ''Unable to determine intent via AI analysis''\<rparr>, ())"
proof -
  have absent: "OPENAI_API_KEY noKeyEnv = None \<or> OPENAI_API_KEY noKeyEnv = Some [] \<or>
      OPENAI_API_KEY noKeyEnv = Some ''your_openai_api_key_here''"
    by (simp add: noKeyEnv_def)
  have raised: "OPENAI_API_KEY failingEnv = Some ''sk-test'' \<and> ''sk-test'' \<noteq> [] \<and>
      ''sk-test'' \<noteq> ''your_openai_api_key_here'' \<and>
      create failingEnv () SYSTEM_PROMPT (buildPrompt amy exampleOffer) =
        (Inl (Error ''connect ETIMEDOUT''), ())"
    by (simp add: failingEnv_def)
  show ?thesis
    using scoreWithAI_never_throws[of noKeyEnv "()" amy exampleOffer, THEN conjunct2,
        THEN conjunct1, rule_format, OF absent]
      scoreWithAI_never_throws[of failingEnv "()" amy exampleOffer, THEN conjunct2,
        THEN conjunct2, rule_format, OF raised]
    by simp
qed

section \<open>Orchestrator: one lead\<close>

lemma spread:
  "Lead.extend l (ScoredLead.fields a b c d e) =
     \<lparr>name = name l, role = role l, company = company l, industry = industry l,
      location = location l, linkedin_bio = linkedin_bio l,
      intent = a, score = b, reasoning = c, rule_score = d, ai_score = e\<rparr>"
  by (simp add: Lead.defs ScoredLead.defs)

lemma scoreLead_cases:
  "scoreLead ai w lead offer =
     (case ai w lead offer of
        (Inl e, w') \<Rightarrow> (Inl e, w')
      | (Inr a, w') \<Rightarrow>
          (Inr \<lparr>name = name lead, role = role lead, company = company lead,
                industry = industry lead, location = location lead,
                linkedin_bio = linkedin_bio lead,
                intent = determineIntent (fst (calculateRuleScore lead) + AIScore.score a),
                score = fst (calculateRuleScore lead) + AIScore.score a,
                reasoning = AIScore.reasoning a,
                rule_score = fst (calculateRuleScore lead),
                ai_score = AIScore.score a\<rparr>, w'))"
  by (simp add: scoreLead_def Let_def spread split: prod.splits sum.splits)

lemma errorPlaceholder_fields:
  "errorPlaceholder lead =
     \<lparr>name = name lead, role = role lead, company = company lead,
      industry = industry lead, location = location lead,
      linkedin_bio = linkedin_bio lead,
      intent = Medium, score = 40, reasoning = ''Error during scoring process'',
      rule_score = 20, ai_score = 20\<rparr>"
  by (simp add: errorPlaceholder_def spread)

lemma determineIntent_thresholds:
  "(determineIntent n = High \<longleftrightarrow> n \<ge> 70) \<and>
   (determineIntent n = Medium \<longleftrightarrow> 40 \<le> n \<and> n < 70) \<and>
   (determineIntent n = Low \<longleftrightarrow> n < 40)"
  by (simp add: determineIntent_def INTENT_THRESHOLDS_HIGH_def INTENT_THRESHOLDS_MEDIUM_def)

text \<open>With the service's own classifier, \<open>scoreLead\<close> returns, and this is the record.\<close>

lemma scoreLead_service_returns:
  "\<exists>r w'. scoreWithAI env w lead offer = (Inr r, w') \<and>
     (AIScore.score r = 10 \<or> AIScore.score r = 30 \<or> AIScore.score r = 50) \<and>
     scoreLead (scoreWithAI env) w lead offer =
       (Inr \<lparr>name = name lead, role = role lead, company = company lead,
             industry = industry lead, location = location lead,
             linkedin_bio = linkedin_bio lead,
             intent = determineIntent (fst (calculateRuleScore lead) + AIScore.score r),
             score = fst (calculateRuleScore lead) + AIScore.score r,
             reasoning = AIScore.reasoning r,
             rule_score = fst (calculateRuleScore lead),
             ai_score = AIScore.score r\<rparr>, w')"
proof -
  obtain r w' where r: "scoreWithAI env w lead offer = (Inr r, w')"
    and v: "AIScore.score r = 10 \<or> AIScore.score r = 30 \<or> AIScore.score r = 50"
    using scoreWithAI_returns[of env w lead offer] by auto
  show ?thesis
    using r v by (simp add: scoreLead_cases)
qed

text \<open>
  C1. For every lead and offer (and every environment), \<open>scoreLead\<close> returns a scored
  lead whose \<open>rule_score\<close> is the rule engine's score and whose \<open>ai_score\<close> is the
  classifier's, with \<open>score = rule_score + ai_score\<close>, \<open>0 \<le> score \<le> 100\<close>, and intent
  High exactly when \<open>score \<ge> 70\<close>, Medium exactly when \<open>40 \<le> score < 70\<close>, Low exactly
  when \<open>score < 40\<close>.
\<close>

theorem scoreLead_score_and_intent:
  "\<exists>s w'. scoreLead (scoreWithAI env) w lead offer = (Inr s, w') \<and>
     rule_score s = fst (calculateRuleScore lead) \<and>
     (\<exists>r. scoreWithAI env w lead offer = (Inr r, w') \<and> ai_score s = AIScore.score r) \<and>
     score s = rule_score s + ai_score s \<and>
     0 \<le> score s \<and> score s \<le> 100 \<and>
     (intent s = High \<longleftrightarrow> score s \<ge> 70) \<and>
     (intent s = Medium \<longleftrightarrow> 40 \<le> score s \<and> score s < 70) \<and>
     (intent s = Low \<longleftrightarrow> score s < 40)"
proof -
  obtain r w' where r: "scoreWithAI env w lead offer = (Inr r, w')"
    and v: "AIScore.score r = 10 \<or> AIScore.score r = 30 \<or> AIScore.score r = 50"
    and s: "scoreLead (scoreWithAI env) w lead offer =
       (Inr \<lparr>name = name lead, role = role lead, company = company lead,
             industry = industry lead, location = location lead,
             linkedin_bio = linkedin_bio lead,
             intent = determineIntent (fst (calculateRuleScore lead) + AIScore.score r),
             score = fst (calculateRuleScore lead) + AIScore.score r,
             reasoning = AIScore.reasoning r,
             rule_score = fst (calculateRuleScore lead),
             ai_score = AIScore.score r\<rparr>, w')"
    using scoreLead_service_returns[of env w lead offer] by auto
  have range: "0 \<le> fst (calculateRuleScore lead) + AIScore.score r"
    "fst (calculateRuleScore lead) + AIScore.score r \<le> 100"
    using calculateRuleScore_range[of lead] v by auto
  show ?thesis
    using r s range by (simp add: determineIntent_thresholds)
qed

section \<open>Orchestrator: the sort\<close>

lemma mset_insert_by: "mset (insert_by cmp x ys) = add_mset x (mset ys)"
  by (induction ys) simp_all

lemma mset_sort_by: "mset (sort_by cmp xs) = mset xs"
  by (induction xs) (simp_all add: sort_by_def mset_insert_by)

lemma set_insert_by: "set (insert_by cmp x ys) = insert x (set ys)"
  by (induction ys) auto

lemma sorted_insert_by:
  "sorted_wrt (\<lambda>a b. f a \<ge> (f b :: int)) ys \<Longrightarrow>
   sorted_wrt (\<lambda>a b. f a \<ge> f b) (insert_by (\<lambda>a b. f b - f a) x ys)"
  by (induction ys) (auto simp: set_insert_by)

lemma sorted_sort_by:
  "sorted_wrt (\<lambda>a b. f a \<ge> (f b :: int)) (sort_by (\<lambda>a b. f b - f a) xs)"
  by (induction xs) (simp_all add: sort_by_def sorted_insert_by)

text \<open>
  An element that moves right in an insertion only passes elements of a strictly
  greater key, so the elements of any one key keep their order.
\<close>

lemma filter_insert_by:
  "filter (\<lambda>s. f s = (k::int)) (insert_by (\<lambda>a b. f b - f a) x ys) =
     (if f x = k then x # filter (\<lambda>s. f s = k) ys else filter (\<lambda>s. f s = k) ys)"
  by (induction ys) auto

lemma stable_sort_by:
  "filter (\<lambda>s. f s = (k::int)) (sort_by (\<lambda>a b. f b - f a) xs) = filter (\<lambda>s. f s = k) xs"
  by (induction xs) (simp_all add: sort_by_def filter_insert_by)

section \<open>Orchestrator: the batch loop\<close>

lemma scoreLeads_step_eq:
  "scoreLeads_step ai offer (acc, w) lead =
     (acc @ [emitted ai w lead offer], snd (scoreLead ai w lead offer))"
  by (simp add: scoreLeads_step_def emitted_def split: prod.splits sum.splits)

text \<open>The loop only appends: what it is started on stays in front.\<close>

lemma foldl_step_acc:
  "foldl (scoreLeads_step ai offer) (acc, w) leads =
     (acc @ fst (foldl (scoreLeads_step ai offer) ([], w) leads),
      snd (foldl (scoreLeads_step ai offer) ([], w) leads))"
proof (induction leads arbitrary: acc w)
  case Nil
  then show ?case by simp
next
  case (Cons l ls)
  show ?case
    by (simp add: scoreLeads_step_eq Cons.IH[of "acc @ [emitted ai w l offer]"]
        Cons.IH[of "[emitted ai w l offer]"])
qed

lemma scoreLeads_loop_Nil: "scoreLeads_loop ai w [] offer = ([], w)"
  by (simp add: scoreLeads_loop_def)

lemma scoreLeads_loop_Cons:
  "scoreLeads_loop ai w (l # ls) offer =
     (emitted ai w l offer # fst (scoreLeads_loop ai (snd (scoreLead ai w l offer)) ls offer),
      snd (scoreLeads_loop ai (snd (scoreLead ai w l offer)) ls offer))"
  unfolding scoreLeads_loop_def
  by (simp add: scoreLeads_step_eq foldl_step_acc[of ai offer "[emitted ai w l offer]"])

lemma scoreLeads_loop_snoc:
  "scoreLeads_loop ai w (ls @ [l]) offer =
     (fst (scoreLeads_loop ai w ls offer) @
        [emitted ai (snd (scoreLeads_loop ai w ls offer)) l offer],
      snd (scoreLead ai (snd (scoreLeads_loop ai w ls offer)) l offer))"
  unfolding scoreLeads_loop_def
  by (simp add: scoreLeads_step_eq split_beta scoreLeads_step_def[of ai offer "foldl _ _ _"]
      emitted_def split: prod.splits sum.splits)

lemma length_scoreLeads_loop: "length (fst (scoreLeads_loop ai w leads offer)) = length leads"
  by (induction leads arbitrary: w) (simp_all add: scoreLeads_loop_Nil scoreLeads_loop_Cons)

lemma scoreLeads_loop_take:
  "fst (scoreLeads_loop ai w (take n leads) offer) =
     take n (fst (scoreLeads_loop ai w leads offer))"
proof (induction leads arbitrary: w n)
  case Nil
  then show ?case by (simp add: scoreLeads_loop_Nil)
next
  case (Cons l ls)
  then show ?case by (cases n) (simp_all add: scoreLeads_loop_Nil scoreLeads_loop_Cons)
qed

text \<open>
  The \<open>i\<close>-th record of the loop is what the \<open>i\<close>-th lead gives in the world that the
  leads before it have left.
\<close>

lemma scoreLeads_loop_nth:
  assumes "i < length leads"
  shows "fst (scoreLeads_loop ai w leads offer) ! i =
           emitted ai (snd (scoreLeads_loop ai w (take i leads) offer)) (leads ! i) offer"
proof -
  have "fst (scoreLeads_loop ai w (take (Suc i) leads) offer) ! i =
          emitted ai (snd (scoreLeads_loop ai w (take i leads) offer)) (leads ! i) offer"
    using assms
    by (simp add: take_Suc_conv_app_nth scoreLeads_loop_snoc nth_append length_scoreLeads_loop)
  then show ?thesis
    using assms by (simp add: scoreLeads_loop_take)
qed

lemma set_scoreLeads_loop:
  "s \<in> set (fst (scoreLeads_loop ai w leads offer)) \<Longrightarrow>
   \<exists>w0 l. l \<in> set leads \<and> s = emitted ai w0 l offer"
proof (induction leads arbitrary: w)
  case Nil
  then show ?case by (simp add: scoreLeads_loop_Nil)
next
  case (Cons l ls)
  then show ?case
    by (fastforce simp: scoreLeads_loop_Cons)
qed

lemma truncate_emitted: "Lead.truncate (emitted ai w lead offer) = lead"
  by (simp add: emitted_def scoreLead_cases errorPlaceholder_fields Lead.truncate_def
      split: prod.splits sum.splits)

lemma truncate_scoreLeads_loop:
  "map Lead.truncate (fst (scoreLeads_loop ai w leads offer)) = leads"
  by (induction leads arbitrary: w)
     (simp_all add: scoreLeads_loop_Nil scoreLeads_loop_Cons truncate_emitted)

lemma scoreLeads_eq:
  "scoreLeads ai w leads offer =
     (sort_by (\<lambda>a b. score b - score a) (fst (scoreLeads_loop ai w leads offer)),
      snd (scoreLeads_loop ai w leads offer))"
  by (simp add: scoreLeads_def split: prod.splits)

lemma mset_scoreLeads:
  "mset (fst (scoreLeads ai w leads offer)) = mset (fst (scoreLeads_loop ai w leads offer))"
  by (simp add: scoreLeads_eq mset_sort_by)

lemma set_scoreLeads:
  "set (fst (scoreLeads ai w leads offer)) = set (fst (scoreLeads_loop ai w leads offer))"
  using mset_scoreLeads[of ai w leads offer] by (metis set_mset_mset)

lemma length_scoreLeads: "length (fst (scoreLeads ai w leads offer)) = length leads"
  using mset_scoreLeads[of ai w leads offer, THEN arg_cong, of size]
  by (simp add: length_scoreLeads_loop)

section \<open>Orchestrator: the batch\<close>

text \<open>
  C2. \<open>scoreLeads\<close> returns as many records as it is given leads, none for the empty
  list, and its result is a rearrangement of what the loop has appended. The loop appends
  one record for each lead, in order: the scored lead when \<open>scoreLead\<close> returns, and when
  \<open>scoreLead\<close> throws the lead with \<open>rule_score = 20\<close>, \<open>ai_score = 20\<close>, \<open>score = 40\<close>,
  intent Medium and the reasoning "Error during scoring process". The batch itself has no
  failing outcome.
\<close>

theorem scoreLeads_length_and_isolation:
  "length (fst (scoreLeads ai w leads offer)) = length leads \<and>
   fst (scoreLeads ai w [] offer) = [] \<and>
   mset (fst (scoreLeads ai w leads offer)) = mset (fst (scoreLeads_loop ai w leads offer)) \<and>
   (\<forall>i<length leads.
      fst (scoreLeads_loop ai w leads offer) ! i =
        (case fst (scoreLead ai (snd (scoreLeads_loop ai w (take i leads) offer))
                     (leads ! i) offer) of
           Inr scoredLead \<Rightarrow> scoredLead
         | Inl e \<Rightarrow>
             \<lparr>name = name (leads ! i), role = role (leads ! i),
              company = company (leads ! i), industry = industry (leads ! i),
              location = location (leads ! i), linkedin_bio = linkedin_bio (leads ! i),
              intent = Medium, score = 40, reasoning = ''Error during scoring process'',
              rule_score = 20, ai_score = 20\<rparr>))"
proof -
  have "fst (scoreLeads ai w [] offer) = []"
    by (simp add: scoreLeads_eq scoreLeads_loop_Nil sort_by_def)
  moreover have "\<forall>i<length leads.
      fst (scoreLeads_loop ai w leads offer) ! i =
        (case fst (scoreLead ai (snd (scoreLeads_loop ai w (take i leads) offer))
                     (leads ! i) offer) of
           Inr scoredLead \<Rightarrow> scoredLead
         | Inl e \<Rightarrow>
             \<lparr>name = name (leads ! i), role = role (leads ! i),
              company = company (leads ! i), industry = industry (leads ! i),
              location = location (leads ! i), linkedin_bio = linkedin_bio (leads ! i),
              intent = Medium, score = 40, reasoning = ''Error during scoring process'',
              rule_score = 20, ai_score = 20\<rparr>)"
    by (auto simp: scoreLeads_loop_nth emitted_def errorPlaceholder_fields split: sum.splits)
  ultimately show ?thesis
    by (simp add: length_scoreLeads mset_scoreLeads)
qed

text \<open>
  A batch of three leads whose classifier rejects the second call: three records come
  out, and the second record of the loop is Bob's placeholder.
\<close>

theorem scoreLeads_length_and_isolation_witness:
  "length (fst (scoreLeads secondCallRejects 0 [amy, bob, carol] exampleOffer)) = 3 \<and>
   fst (scoreLead secondCallRejects
          (snd (scoreLeads_loop secondCallRejects 0 (take 1 [amy, bob, carol]) exampleOffer))
          ([amy, bob, carol] ! 1) exampleOffer) = Inl (Error ''rejected'') \<and>
   fst (scoreLeads_loop secondCallRejects 0 [amy, bob, carol] exampleOffer) ! 1 =
     \<lparr>name = ''Bob Ray'', role = ''Account Manager'', company = ''Initech'',
      industry = ''Fintech'', location = ''Austin'',
      linkedin_bio = ''Helping teams close deals'',
      intent = Medium, score = 40, reasoning = ''Error during scoring process'',
      rule_score = 20, ai_score = 20\<rparr>"
proof -
  have rejects: "fst (scoreLead secondCallRejects
          (snd (scoreLeads_loop secondCallRejects 0 (take 1 [amy, bob, carol]) exampleOffer))
          ([amy, bob, carol] ! 1) exampleOffer) = Inl (Error ''rejected'')"
    by code_simp
  note T = scoreLeads_length_and_isolation[of secondCallRejects 0 "[amy, bob, carol]"
      exampleOffer]
  have len: "length (fst (scoreLeads secondCallRejects 0 [amy, bob, carol] exampleOffer)) = 3"
    using T[THEN conjunct1] by simp
  have "fst (scoreLeads_loop secondCallRejects 0 [amy, bob, carol] exampleOffer) ! 1 =
     \<lparr>name = ''Bob Ray'', role = ''Account Manager'', company = ''Initech'',
      industry = ''Fintech'', location = ''Austin'',
      linkedin_bio = ''Helping teams close deals'',
      intent = Medium, score = 40, reasoning = ''Error during scoring process'',
      rule_score = 20, ai_score = 20\<rparr>"
    using T[THEN conjunct2, THEN conjunct2, THEN conjunct2, rule_format, of 1,
        unfolded rejects]
    by (simp add: bob_def)
  with len rejects show ?thesis
    by simp
qed

text \<open>
  C3. The list \<open>scoreLeads\<close> returns is sorted by non-increasing score, and for every
  score the records of that score stand in the order in which the loop appended them,
  which is the order of their leads in the input.
\<close>

theorem scoreLeads_sorted_stable:
  "sorted_wrt (\<lambda>a b. score a \<ge> score b) (fst (scoreLeads ai w leads offer)) \<and>
   (\<forall>k. filter (\<lambda>s. score s = k) (fst (scoreLeads ai w leads offer)) =
        filter (\<lambda>s. score s = k) (fst (scoreLeads_loop ai w leads offer))) \<and>
   map Lead.truncate (fst (scoreLeads_loop ai w leads offer)) = leads"
  by (simp add: scoreLeads_eq sorted_sort_by stable_sort_by truncate_scoreLeads_loop)

text \<open>
  Four leads without a credential: Bob and Bea both score 60 and leave the sort in the
  order in which they came in.
\<close>

theorem scoreLeads_sorted_stable_witness:
  "map (\<lambda>s. (name s, score s))
     (fst (scoreLeads_loop (scoreWithAI noKeyEnv) ()
        [carol, bob, amy, bob\<lparr>name := ''Bea Ray''\<rparr>] exampleOffer)) =
     [(''Carol Diaz'', 10), (''Bob Ray'', 60), (''Amy Chen'', 100), (''Bea Ray'', 60)] \<and>
   map (\<lambda>s. (name s, score s))
     (fst (scoreLeads (scoreWithAI noKeyEnv) ()
        [carol, bob, amy, bob\<lparr>name := ''Bea Ray''\<rparr>] exampleOffer)) =
     [(''Amy Chen'', 100), (''Bob Ray'', 60), (''Bea Ray'', 60), (''Carol Diaz'', 10)] \<and>
   sorted_wrt (\<lambda>a b. score a \<ge> score b)
     (fst (scoreLeads (scoreWithAI noKeyEnv) ()
        [carol, bob, amy, bob\<lparr>name := ''Bea Ray''\<rparr>] exampleOffer))"
proof -
  have "map (\<lambda>s. (name s, score s))
     (fst (scoreLeads_loop (scoreWithAI noKeyEnv) ()
        [carol, bob, amy, bob\<lparr>name := ''Bea Ray''\<rparr>] exampleOffer)) =
     [(''Carol Diaz'', 10), (''Bob Ray'', 60), (''Amy Chen'', 100), (''Bea Ray'', 60)]"
    "map (\<lambda>s. (name s, score s))
     (fst (scoreLeads (scoreWithAI noKeyEnv) ()
        [carol, bob, amy, bob\<lparr>name := ''Bea Ray''\<rparr>] exampleOffer)) =
     [(''Amy Chen'', 100), (''Bob Ray'', 60), (''Bea Ray'', 60), (''Carol Diaz'', 10)]"
    by code_simp+
  then show ?thesis
    using scoreLeads_sorted_stable[of "scoreWithAI noKeyEnv" "()"
        "[carol, bob, amy, bob\<lparr>name := ''Bea Ray''\<rparr>]" exampleOffer, THEN conjunct1]
    by simp
qed

text \<open>With the service's own classifier the loop never appends the placeholder.\<close>

lemma emitted_service:
  "\<exists>r w'. scoreWithAI env w lead offer = (Inr r, w') \<and>
     (AIScore.score r = 10 \<or> AIScore.score r = 30 \<or> AIScore.score r = 50) \<and>
     ai_score (emitted (scoreWithAI env) w lead offer) = AIScore.score r"
proof -
  obtain r w' where r: "scoreWithAI env w lead offer = (Inr r, w')"
    and v: "AIScore.score r = 10 \<or> AIScore.score r = 30 \<or> AIScore.score r = 50"
    using scoreWithAI_returns[of env w lead offer] by auto
  show ?thesis
    using r v by (simp add: emitted_def scoreLead_cases)
qed

text \<open>
  C5. Every \<open>ai_score\<close> the pipeline produces is 10, 30 or 50: the score of a parsed
  response, the score of the fallback heuristic, the score of every result of
  \<open>scoreWithAI\<close> (these two, or the default 30 after a failed call), the \<open>ai_score\<close> of the
  record \<open>scoreLead\<close> returns, and the \<open>ai_score\<close> of every record of a batch. The
  \<^verbatim>\<open>catch\<close> block of \<^verbatim>\<open>scoreLeads\<close> would write 20, but it is entered only when
  \<^verbatim>\<open>scoreLead\<close> throws, and with the classifier of the service, which catches every
  failure of the completion call, \<^verbatim>\<open>scoreLead\<close> always returns.
\<close>

theorem ai_score_values:
  "AIScore.score (parseAIResponse response) \<in> {10, 30, 50} \<and>
   AIScore.score (fallbackScoring lead offer) \<in> {10, 30, 50} \<and>
   (\<exists>r w'. scoreWithAI env w lead offer = (Inr r, w') \<and> AIScore.score r \<in> {10, 30, 50}) \<and>
   (\<exists>s w'. scoreLead (scoreWithAI env) w lead offer = (Inr s, w') \<and>
      ai_score s \<in> {10, 30, 50}) \<and>
   (\<forall>s \<in> set (fst (scoreLeads (scoreWithAI env) w leads offer)). ai_score s \<in> {10, 30, 50})"
proof -
  have 1: "AIScore.score (parseAIResponse response) \<in> {10, 30, 50}"
    using scoreMap_values[of "AIScore.intent (parseAIResponse response)"]
    by (simp add: parseAIResponse_score)
  have 2: "AIScore.score (fallbackScoring lead offer) \<in> {10, 30, 50}"
    using fallbackScoring_score[of lead offer] by simp
  have 3: "\<exists>r w'. scoreWithAI env w lead offer = (Inr r, w') \<and> AIScore.score r \<in> {10, 30, 50}"
    using scoreWithAI_returns[of env w lead offer] by auto
  have 4: "\<exists>s w'. scoreLead (scoreWithAI env) w lead offer = (Inr s, w') \<and>
             ai_score s \<in> {10, 30, 50}"
    using scoreLead_service_returns[of env w lead offer] by auto
  have 5: "\<forall>s \<in> set (fst (scoreLeads (scoreWithAI env) w leads offer)).
             ai_score s \<in> {10, 30, 50}"
  proof
    fix s assume "s \<in> set (fst (scoreLeads (scoreWithAI env) w leads offer))"
    then obtain w1 l where "s = emitted (scoreWithAI env) w1 l offer"
      using set_scoreLeads_loop[of s "scoreWithAI env" w leads offer]
      by (auto simp: set_scoreLeads)
    then show "ai_score s \<in> {10, 30, 50}"
      using emitted_service[of env w1 l offer] by auto
  qed
  from 1 2 3 4 5 show ?thesis by blast
qed

text \<open>
  One batch on each path: without a credential the heuristic gives 50, 30 and 10; with a
  completion call that raises every lead gets 30; with one that answers Low every lead
  gets 10.
\<close>

theorem ai_score_values_witness:
  "list_all (\<lambda>s. ai_score s \<in> {10, 30, 50})
     (fst (scoreLeads (scoreWithAI noKeyEnv) () [amy, bob, carol] exampleOffer)) \<and>
   map ai_score (fst (scoreLeads (scoreWithAI noKeyEnv) () [amy, bob, carol] exampleOffer)) =
     [50, 30, 10] \<and>
   map ai_score (fst (scoreLeads (scoreWithAI failingEnv) () [amy, bob, carol] exampleOffer)) =
     [30, 30, 30] \<and>
   map ai_score (fst (scoreLeads (scoreWithAI replyingEnv) () [amy, bob, carol] exampleOffer)) =
     [10, 10, 10]"
proof -
  have "map ai_score
          (fst (scoreLeads (scoreWithAI noKeyEnv) () [amy, bob, carol] exampleOffer)) =
          [50, 30, 10]"
    "map ai_score
          (fst (scoreLeads (scoreWithAI failingEnv) () [amy, bob, carol] exampleOffer)) =
          [30, 30, 30]"
    "map ai_score
          (fst (scoreLeads (scoreWithAI replyingEnv) () [amy, bob, carol] exampleOffer)) =
          [10, 10, 10]"
    by code_simp+
  then show ?thesis
    using ai_score_values[where env = noKeyEnv and w = "()" and leads = "[amy, bob, carol]"
        and offer = exampleOffer, THEN conjunct2, THEN conjunct2, THEN conjunct2,
        THEN conjunct2]
    by (simp add: list_all_iff)
qed

lemma intent_emitted:
  "intent (emitted ai w lead offer) = determineIntent (score (emitted ai w lead offer))"
  by (simp add: emitted_def scoreLead_cases errorPlaceholder_fields determineIntent_def
      INTENT_THRESHOLDS_HIGH_def INTENT_THRESHOLDS_MEDIUM_def split: prod.splits sum.splits)

text \<open>
  C7. Whatever the classifier returns, every record of a batch, every record \<open>scoreLead\<close>
  returns and the placeholder have as intent the value of \<open>determineIntent\<close> at their
  score: the intent depends on the score only.
\<close>

theorem intent_function_of_score:
  "(\<forall>s \<in> set (fst (scoreLeads ai w leads offer)). intent s = determineIntent (score s)) \<and>
   (\<forall>s w'. scoreLead ai w lead offer = (Inr s, w') \<longrightarrow> intent s = determineIntent (score s)) \<and>
   intent (errorPlaceholder lead) = determineIntent (score (errorPlaceholder lead))"
proof -
  have "\<forall>s \<in> set (fst (scoreLeads ai w leads offer)). intent s = determineIntent (score s)"
    using set_scoreLeads_loop[of _ ai w leads offer] intent_emitted
    by (fastforce simp: set_scoreLeads)
  moreover have "\<forall>s w'. scoreLead ai w lead offer = (Inr s, w') \<longrightarrow>
                   intent s = determineIntent (score s)"
    by (auto simp: scoreLead_cases split: prod.splits sum.splits)
  moreover have "intent (errorPlaceholder lead) = determineIntent (score (errorPlaceholder lead))"
    by (simp add: errorPlaceholder_fields determineIntent_def
        INTENT_THRESHOLDS_HIGH_def INTENT_THRESHOLDS_MEDIUM_def)
  ultimately show ?thesis by blast
qed

theorem intent_function_of_score_witness:
  "list_all (\<lambda>s. intent s = determineIntent (score s))
     (fst (scoreLeads secondCallRejects 0 [amy, bob, carol] exampleOffer)) \<and>
   map score (fst (scoreLeads secondCallRejects 0 [amy, bob, carol] exampleOffer)) =
     [100, 40, 10] \<and>
   map intent (fst (scoreLeads secondCallRejects 0 [amy, bob, carol] exampleOffer)) =
     [High, Medium, Low]"
proof -
  have "map score (fst (scoreLeads secondCallRejects 0 [amy, bob, carol] exampleOffer)) =
          [100, 40, 10]"
    "map intent (fst (scoreLeads secondCallRejects 0 [amy, bob, carol] exampleOffer)) =
          [High, Medium, Low]"
    by code_simp+
  then show ?thesis
    using intent_function_of_score[of secondCallRejects 0 "[amy, bob, carol]" exampleOffer,
        THEN conjunct1]
    by (simp add: list_all_iff)
qed

text \<open>
  C10. A record that \<open>scoreLead\<close> returns has the name, role, company, industry, location
  and linkedin_bio of its lead, and so has the placeholder; in a batch, the records the
  loop appends, cut down to the six lead fields, are the input leads.
\<close>

theorem scoreLead_preserves_lead:
  "(\<forall>s w'. scoreLead ai w lead offer = (Inr s, w') \<longrightarrow>
      name s = name lead \<and> role s = role lead \<and> company s = company lead \<and>
      industry s = industry lead \<and> location s = location lead \<and>
      linkedin_bio s = linkedin_bio lead) \<and>
   (name (errorPlaceholder lead) = name lead \<and> role (errorPlaceholder lead) = role lead \<and>
    company (errorPlaceholder lead) = company lead \<and>
    industry (errorPlaceholder lead) = industry lead \<and>
    location (errorPlaceholder lead) = location lead \<and>
    linkedin_bio (errorPlaceholder lead) = linkedin_bio lead) \<and>
   map Lead.truncate (fst (scoreLeads_loop ai w leads offer)) = leads"
  by (auto simp: scoreLead_cases errorPlaceholder_fields truncate_scoreLeads_loop
      split: prod.splits sum.splits)

theorem scoreLead_preserves_lead_witness:
  "\<exists>s w'. scoreLead (scoreWithAI noKeyEnv) () amy exampleOffer = (Inr s, w') \<and>
     name s = ''Amy Chen'' \<and> role s = ''VP of Sales'' \<and> company s = ''Acme'' \<and>
     industry s = ''B2B SaaS'' \<and> location s = ''NYC'' \<and>
     linkedin_bio s = ''Scaling outbound with automation''"
proof -
  obtain s w' where s: "scoreLead (scoreWithAI noKeyEnv) () amy exampleOffer = (Inr s, w')"
    using scoreLead_service_returns[of noKeyEnv "()" amy exampleOffer] by auto
  show ?thesis
    using s scoreLead_preserves_lead[where ai = "scoreWithAI noKeyEnv" and w = "()"
        and lead = amy and offer = exampleOffer, THEN conjunct1, rule_format, OF s]
    by (simp add: amy_def)
qed

section \<open>Scenarios\<close>

text \<open>
  Two runs without a credential: a complete decision-maker profile in the target industry
  scores 50 + 50, and a lead with an empty role and industry scores 0 + 10.
\<close>

lemma scenario_amy:
  "fst (scoreLead (scoreWithAI noKeyEnv) () amy exampleOffer) =
     Inr \<lparr>name = ''Amy Chen'', role = ''VP of Sales'', company = ''Acme'',
          industry = ''B2B SaaS'', location = ''NYC'',
          linkedin_bio = ''Scaling outbound with automation'',
          intent = High, score = 100,
          reasoning = ''Based on profile analysis: VP of Sales in B2B SaaS industry.'',
          rule_score = 50, ai_score = 50\<rparr>"
  by code_simp

lemma scenario_carol:
  "calculateRuleScore carol =
     (0, \<lparr>role_score = 0, industry_score = 0, completeness_score = 0, total_rule_score = 0\<rparr>) \<and>
   map (\<lambda>s. (ai_score s, score s, intent s))
     (fst (scoreLeads (scoreWithAI noKeyEnv) () [carol] exampleOffer)) = [(10, 10, Low)]"
  by code_simp

text \<open>
  Upper-casing turns a sharp s into \<^verbatim>\<open>SS\<close>, so a role or an industry written with it
  matches the keywords \<^verbatim>\<open>Senior\<close> and \<^verbatim>\<open>SaaS\<close>.
\<close>

lemma scenario_sharp_s:
  "toUpperCase (CHR 0xDF # ''enior'') = [83, 83, 69, 78, 73, 79, 82] \<and>
   scoreRole (CHR 0xDF # ''enior'') = 10 \<and> scoreIndustry (CHR 0xDF # ''aas'') = 20"
  by code_simp

end
